theory Spec2Isabelle
  imports Complex_Main
begin

section \<open>Strings\<close>

text \<open>
  Python strings are modelled as \<open>string\<close> (a list of characters) and are taken to be
  ASCII text, as exchange symbols, timeframes and the messages matched here are.
  \<open>upper\<close> and \<open>lower\<close> stand for \<open>str.upper()\<close> and \<open>str.lower()\<close>: they map
  the 26 ASCII letters and leave every other character as it is.
\<close>

definition lower_letters :: string where
  "lower_letters = ''abcdefghijklmnopqrstuvwxyz''"

definition upper_letters :: string where
  "upper_letters = ''ABCDEFGHIJKLMNOPQRSTUVWXYZ''"

definition upper_char :: "char \<Rightarrow> char" where
  "upper_char c = (case map_of (zip lower_letters upper_letters) c of None \<Rightarrow> c | Some d \<Rightarrow> d)"

definition lower_char :: "char \<Rightarrow> char" where
  "lower_char c = (case map_of (zip upper_letters lower_letters) c of None \<Rightarrow> c | Some d \<Rightarrow> d)"

definition upper :: "string \<Rightarrow> string" where
  "upper s = map upper_char s"

definition lower :: "string \<Rightarrow> string" where
  "lower s = map lower_char s"

text \<open>\<open>starts_with p s\<close>: \<open>s.startswith(p)\<close>; \<open>contains p s\<close>: the Python test \<open>p in s\<close>.\<close>

fun starts_with :: "string \<Rightarrow> string \<Rightarrow> bool" where
  "starts_with [] s = True"
| "starts_with (p # ps) [] = False"
| "starts_with (p # ps) (c # cs) = (p = c \<and> starts_with ps cs)"

fun contains :: "string \<Rightarrow> string \<Rightarrow> bool" where
  "contains p [] = (p = [])"
| "contains p (c # cs) = (starts_with p (c # cs) \<or> contains p cs)"

section \<open>The TTL cache (class SimpleCache)\<close>

text \<open>
  \<open>self._cache\<close> is a dictionary from key to the pair (data, timestamp); \<open>self._ttl\<close>
  is the integer given to the constructor. Readings of \<open>time.time()\<close> are real numbers
  and are passed to the operation that reads the clock: \<open>get\<close> reads it (inside
  \<open>_is_expired\<close>) only when the key is present, \<open>set\<close> reads it always.
\<close>

record 'v SimpleCache =
  cache :: "string \<rightharpoonup> 'v \<times> real"
  ttl :: int

definition SimpleCache_init :: "int \<Rightarrow> 'v SimpleCache" where
  "SimpleCache_init ttl_seconds = \<lparr>cache = Map.empty, ttl = ttl_seconds\<rparr>"

definition is_expired :: "'v SimpleCache \<Rightarrow> real \<Rightarrow> real \<Rightarrow> bool" where
  "is_expired self now timestamp = (now - timestamp > real_of_int (ttl self))"

text \<open>
  \<open>cache_get self now key\<close> returns the value of \<open>get(key)\<close> (\<open>None\<close> for Python's
  \<open>None\<close>) and the cache after the call; \<open>now\<close> is what \<open>time.time()\<close> returns.
\<close>

definition cache_get :: "'v SimpleCache \<Rightarrow> real \<Rightarrow> string \<Rightarrow> 'v option \<times> 'v SimpleCache" where
  "cache_get self now key =
     (case cache self key of
        Some (data, timestamp) \<Rightarrow>
          if \<not> is_expired self now timestamp then (Some data, self)
          else (None, self\<lparr>cache := (cache self)(key := None)\<rparr>)
      | None \<Rightarrow> (None, self))"

definition cache_set :: "'v SimpleCache \<Rightarrow> real \<Rightarrow> string \<Rightarrow> 'v \<Rightarrow> 'v SimpleCache" where
  "cache_set self now key data = self\<lparr>cache := (cache self)(key \<mapsto> (data, now))\<rparr>"

text \<open>A history of calls on one cache, each with the clock reading it sees.\<close>

datatype 'v cache_call = Get string real | Set string 'v real

fun apply_call :: "'v SimpleCache \<Rightarrow> 'v cache_call \<Rightarrow> 'v SimpleCache" where
  "apply_call self (Get key now) = snd (cache_get self now key)"
| "apply_call self (Set key data now) = cache_set self now key data"

definition apply_calls :: "'v SimpleCache \<Rightarrow> 'v cache_call list \<Rightarrow> 'v SimpleCache" where
  "apply_calls self calls = foldl apply_call self calls"

fun sets_key :: "string \<Rightarrow> 'v cache_call \<Rightarrow> bool" where
  "sets_key k (Get key now) = False"
| "sets_key k (Set key data now) = (key = k)"

definition never_set :: "string \<Rightarrow> 'v cache_call list \<Rightarrow> bool" where
  "never_set k calls = (filter (sets_key k) calls = [])"

section \<open>Values, exceptions and the response models\<close>

text \<open>
  What the exchange client hands back are Python values: \<open>None\<close>, integers, floats
  (read as real numbers), strings and dictionaries with string keys. A raised exception
  (any subclass of \<open>Exception\<close>) is described by the two things the handlers look at:
  whether it is an instance of \<open>ccxt.ExchangeError\<close>, and its text \<open>str(e)\<close>.
\<close>

datatype pyval = PNone | PInt int | PFloat real | PStr string | PDict "(string \<times> pyval) list"

datatype pyexc = PyExc (is_ExchangeError: bool) (str: string)

datatype HTTPException = HTTPException (status_code: int) (detail: string)

record TickerResponse =
  ticker_symbol :: string
  ticker_last :: real
  ticker_bid :: real
  ticker_ask :: real
  ticker_timestamp :: int
  ticker_info :: "(string \<times> pyval) list"

record OHLCVData =
  bar_timestamp :: int
  bar_open :: real
  bar_high :: real
  bar_low :: real
  bar_close :: real
  bar_volume :: real

record OHLCVResponse =
  ohlcv_symbol :: string
  ohlcv_timeframe :: string
  ohlcv_data :: "OHLCVData list"

text \<open>
  The collaborators outside the repository. \<open>fetch_ticker\<close> and \<open>fetch_ohlcv\<close> are the
  two methods of \<open>EXCHANGE\<close>: given the number of calls made before (so that a test
  double with a sequence of results is covered) and the arguments, each returns a value or
  raises. \<open>other_float\<close>, \<open>other_int\<close> and \<open>validation_error\<close> belong to the
  model library: what a \<open>float\<close> field and an \<open>int\<close> field make of a value that they
  cannot hold as it is (a string, an integer or float out of range), and the text of the
  error raised when a field is rejected.
\<close>

record env =
  fetch_ticker :: "nat \<Rightarrow> string \<Rightarrow> pyexc + (string \<times> pyval) list"
  fetch_ohlcv :: "nat \<Rightarrow> string \<Rightarrow> string \<Rightarrow> int \<Rightarrow> pyexc + pyval list list"
  other_float :: "pyval \<Rightarrow> real option"
  other_int :: "pyval \<Rightarrow> int option"
  validation_error :: "string \<Rightarrow> pyval list \<Rightarrow> string"

text \<open>
  The state the handlers act on: the process-wide \<open>data_cache\<close>, and the arguments of
  every call made to the exchange client so far, in order (the call count of a method is
  the length of its list).
\<close>

record world =
  data_cache :: "TickerResponse SimpleCache"
  ticker_calls :: "string list"
  ohlcv_calls :: "(string \<times> string \<times> int) list"

definition EXCHANGE_ID :: string where
  "EXCHANGE_ID = ''binance''"

definition data_cache_init :: "TickerResponse SimpleCache" where
  "data_cache_init = SimpleCache_init 5"

definition world_init :: world where
  "world_init = \<lparr>data_cache = data_cache_init, ticker_calls = [], ohlcv_calls = []\<rparr>"

text \<open>Sequencing of steps that may raise: the first exception ends the computation.\<close>

definition try_bind :: "pyexc + 'a \<Rightarrow> ('a \<Rightarrow> pyexc + 'b) \<Rightarrow> pyexc + 'b" where
  "try_bind m f = (case m of Inl e \<Rightarrow> Inl e | Inr x \<Rightarrow> f x)"

text \<open>
  \<open>d[k]\<close> on a dictionary raises \<open>KeyError\<close>, whose text is the key in quotes;
  \<open>xs[i]\<close> on a list raises \<open>IndexError\<close> when \<open>i\<close> is not below the length.
\<close>

definition dict_item :: "(string \<times> pyval) list \<Rightarrow> string \<Rightarrow> pyexc + pyval" where
  "dict_item d k =
     (case map_of d k of
        None \<Rightarrow> Inl (PyExc False ([CHR 0x27] @ k @ [CHR 0x27]))
      | Some v \<Rightarrow> Inr v)"

definition list_item :: "pyval list \<Rightarrow> nat \<Rightarrow> pyexc + pyval" where
  "list_item xs i =
     (if i < length xs then Inr (xs ! i) else Inl (PyExc False ''list index out of range''))"

text \<open>
  Field validation of the response models, by the annotation of the field. A \<open>str\<close>
  field takes a string and a \<open>Dict[str, Any]\<close> field a dictionary. A \<open>float\<close> field
  holds a double: it takes a float as it is, and an integer of magnitude up to \<open>2^53\<close>,
  which every double represents exactly. An \<open>int\<close> field takes an integer of 64 bits as
  it is, and a float without fractional part of magnitude below \<open>2^63\<close>; a float with a
  fractional part is rejected. Whether a larger integer or float is rounded, taken or
  rejected, and how a string is parsed, is the library's matter and is left to
  \<open>other_float\<close> and \<open>other_int\<close>. \<open>None\<close> is rejected by every field, and a
  dictionary by the numeric ones.
\<close>

fun as_str :: "pyval \<Rightarrow> string option" where
  "as_str (PStr s) = Some s"
| "as_str _ = None"

fun as_float :: "env \<Rightarrow> pyval \<Rightarrow> real option" where
  "as_float E (PFloat r) = Some r"
| "as_float E (PInt i) =
     (if \<bar>i\<bar> \<le> 2 ^ 53 then Some (real_of_int i) else other_float E (PInt i))"
| "as_float E (PStr s) = other_float E (PStr s)"
| "as_float E _ = None"

fun as_int :: "env \<Rightarrow> pyval \<Rightarrow> int option" where
  "as_int E (PInt i) = (if \<bar>i\<bar> < 2 ^ 63 then Some i else other_int E (PInt i))"
| "as_int E (PFloat r) =
     (if r \<noteq> real_of_int \<lfloor>r\<rfloor> then None
      else if \<bar>r\<bar> < 2 ^ 63 then Some \<lfloor>r\<rfloor>
      else other_int E (PFloat r))"
| "as_int E (PStr s) = other_int E (PStr s)"
| "as_int E _ = None"

fun as_dict :: "pyval \<Rightarrow> (string \<times> pyval) list option" where
  "as_dict (PDict d) = Some d"
| "as_dict _ = None"

definition TickerResponse_new ::
  "env \<Rightarrow> pyval \<Rightarrow> pyval \<Rightarrow> pyval \<Rightarrow> pyval \<Rightarrow> pyval \<Rightarrow> pyval \<Rightarrow> pyexc + TickerResponse" where
  "TickerResponse_new E s l b a t i =
     (case (as_str s, as_float E l, as_float E b, as_float E a, as_int E t, as_dict i) of
        (Some s', Some l', Some b', Some a', Some t', Some i') \<Rightarrow>
          Inr \<lparr>ticker_symbol = s', ticker_last = l', ticker_bid = b', ticker_ask = a',
               ticker_timestamp = t', ticker_info = i'\<rparr>
      | _ \<Rightarrow> Inl (PyExc False (validation_error E ''TickerResponse'' [s, l, b, a, t, i])))"

definition OHLCVData_new ::
  "env \<Rightarrow> pyval \<Rightarrow> pyval \<Rightarrow> pyval \<Rightarrow> pyval \<Rightarrow> pyval \<Rightarrow> pyval \<Rightarrow> pyexc + OHLCVData" where
  "OHLCVData_new E t o' h l c v =
     (case (as_int E t, as_float E o', as_float E h, as_float E l, as_float E c, as_float E v) of
        (Some t', Some o'', Some h', Some l', Some c', Some v') \<Rightarrow>
          Inr \<lparr>bar_timestamp = t', bar_open = o'', bar_high = h', bar_low = l',
               bar_close = c', bar_volume = v'\<rparr>
      | _ \<Rightarrow> Inl (PyExc False (validation_error E ''OHLCVData'' [t, o', h, l, c, v])))"

section \<open>The ticker handler (get_ticker)\<close>

definition cache_key :: "string \<Rightarrow> string" where
  "cache_key symbol = ''ticker:'' @ symbol"

text \<open>Lines 104 to 111: the six lookups in the raw ticker, then the model constructor.\<close>

definition TickerResponse_of :: "env \<Rightarrow> (string \<times> pyval) list \<Rightarrow> pyexc + TickerResponse" where
  "TickerResponse_of E ticker =
     try_bind (dict_item ticker ''symbol'') (\<lambda>s.
     try_bind (dict_item ticker ''last'') (\<lambda>l.
     try_bind (dict_item ticker ''bid'') (\<lambda>b.
     try_bind (dict_item ticker ''ask'') (\<lambda>a.
     try_bind (dict_item ticker ''timestamp'') (\<lambda>t.
     try_bind (dict_item ticker ''info'') (\<lambda>i.
     TickerResponse_new E s l b a t i))))))"

text \<open>Lines 116 to 126: the two \<open>except\<close> clauses, in the order of the source.\<close>

definition ticker_error :: "string \<Rightarrow> pyexc \<Rightarrow> HTTPException" where
  "ticker_error symbol e =
     (if is_ExchangeError e then
        HTTPException 500 (''Exchange error while fetching ticker for '' @ symbol @ '': '' @ str e)
      else if contains ''symbol is not supported'' (lower (str e))
              \<or> contains ''does not exist'' (lower (str e)) then
        HTTPException 404 (''Symbol '' @ symbol @ '' not found on '' @ EXCHANGE_ID)
      else HTTPException 500 (''An unexpected error occurred: '' @ str e))"

text \<open>
  \<open>get_ticker E t_get t_set symbol w\<close>: one run of the handler in world \<open>w\<close>.
  \<open>t_get\<close> is the clock reading seen by the cache lookup and \<open>t_set\<close> the one seen by
  the cache store. A cached \<open>TickerResponse\<close> object is truthy, so \<open>if cached_data\<close>
  holds exactly when the lookup returned a record.
\<close>

definition get_ticker ::
  "env \<Rightarrow> real \<Rightarrow> real \<Rightarrow> string \<Rightarrow> world \<Rightarrow> (HTTPException + TickerResponse) \<times> world" where
  "get_ticker E t_get t_set symbol w =
     (let (cached_data, c) = cache_get (data_cache w) t_get (cache_key symbol);
          w1 = w\<lparr>data_cache := c\<rparr>
      in case cached_data of
           Some r \<Rightarrow> (Inr r, w1)
         | None \<Rightarrow>
             (let fetched = fetch_ticker E (length (ticker_calls w1)) (upper symbol);
                  w2 = w1\<lparr>ticker_calls := ticker_calls w1 @ [upper symbol]\<rparr>
              in case try_bind fetched (TickerResponse_of E) of
                   Inr response_data \<Rightarrow>
                     (Inr response_data,
                      w2\<lparr>data_cache :=
                           cache_set (data_cache w2) t_set (cache_key symbol) response_data\<rparr>)
                 | Inl e \<Rightarrow> (Inl (ticker_error symbol e), w2)))"

text \<open>
  A sequence of requests, each served at one clock reading; with each response comes the
  number of calls made to \<open>fetch_ticker\<close> so far.
\<close>

fun serve_tickers ::
  "env \<Rightarrow> (real \<times> string) list \<Rightarrow> world \<Rightarrow> ((HTTPException + TickerResponse) \<times> nat) list \<times> world" where
  "serve_tickers E [] w = ([], w)"
| "serve_tickers E ((t, symbol) # reqs) w =
     (let (r, w') = get_ticker E t t symbol w;
          (rs, w'') = serve_tickers E reqs w'
      in ((r, length (ticker_calls w')) # rs, w''))"

section \<open>The OHLCV handler (get_ohlcv)\<close>

definition timeframes :: "string list" where
  "timeframes = [''1m'', ''5m'', ''15m'', ''1h'', ''4h'', ''1d'']"

definition OHLCVData_of :: "env \<Rightarrow> pyval list \<Rightarrow> pyexc + OHLCVData" where
  "OHLCVData_of E bar =
     try_bind (list_item bar 0) (\<lambda>t.
     try_bind (list_item bar 1) (\<lambda>o'.
     try_bind (list_item bar 2) (\<lambda>h.
     try_bind (list_item bar 3) (\<lambda>l.
     try_bind (list_item bar 4) (\<lambda>c.
     try_bind (list_item bar 5) (\<lambda>v.
     OHLCVData_new E t o' h l c v))))))"

text \<open>The list comprehension of lines 154 to 164: the first bar that raises ends it.\<close>

fun format_bars :: "env \<Rightarrow> pyval list list \<Rightarrow> pyexc + OHLCVData list" where
  "format_bars E [] = Inr []"
| "format_bars E (bar # bars) =
     try_bind (OHLCVData_of E bar) (\<lambda>d.
     try_bind (format_bars E bars) (\<lambda>ds. Inr (d # ds)))"

definition ohlcv_error :: "string \<Rightarrow> pyexc \<Rightarrow> HTTPException" where
  "ohlcv_error symbol e =
     (if is_ExchangeError e then
        HTTPException 500 (''Exchange error while fetching OHLCV for '' @ symbol @ '': '' @ str e)
      else if contains ''symbol is not supported'' (lower (str e))
              \<or> contains ''does not exist'' (lower (str e)) then
        HTTPException 404 (''Symbol '' @ symbol @ '' not found on '' @ EXCHANGE_ID)
      else HTTPException 500 (''An unexpected error occurred: '' @ str e))"

text \<open>
  \<open>get_ohlcv E symbol timeframe limit w\<close>: one run of the handler. The two query
  parameters are optional; \<open>None\<close> stands for a parameter the caller left out, which
  then takes the default of the signature.
\<close>

definition get_ohlcv ::
  "env \<Rightarrow> string \<Rightarrow> string option \<Rightarrow> int option \<Rightarrow> world \<Rightarrow> (HTTPException + OHLCVResponse) \<times> world" where
  "get_ohlcv E symbol timeframe_arg limit_arg w =
     (let timeframe = (case timeframe_arg of None \<Rightarrow> ''1h'' | Some tf \<Rightarrow> tf);
          limit = (case limit_arg of None \<Rightarrow> 100 | Some n \<Rightarrow> n)
      in if limit > 1000 then
           (Inl (HTTPException 400 ''Limit must not exceed 1000 for performance.''), w)
         else if timeframe \<notin> set timeframes then
           (Inl (HTTPException 400 ''Invalid timeframe. Supported: 1m, 5m, 15m, 1h, 4h, 1d.''), w)
         else
           (let ohlcv_data = fetch_ohlcv E (length (ohlcv_calls w)) (upper symbol) timeframe limit;
                w1 = w\<lparr>ohlcv_calls := ohlcv_calls w @ [(upper symbol, timeframe, limit)]\<rparr>
            in case try_bind ohlcv_data (format_bars E) of
                 Inr formatted_data \<Rightarrow>
                   (Inr \<lparr>ohlcv_symbol = upper symbol, ohlcv_timeframe = timeframe,
                         ohlcv_data = formatted_data\<rparr>, w1)
               | Inl e \<Rightarrow> (Inl (ohlcv_error symbol e), w1)))"

section \<open>Test doubles\<close>

text \<open>
  The data of the repository's tests: the mocked ticker with a given \<open>last\<close> price and
  the record it maps to, the two mocked bars, and an exchange client that returns the
  ticker with price 60000 on its first call and 70000 afterwards, and the two bars. Beside
  them: a client that raises a given exception on every call, a client whose ticker has
  only the \<open>symbol\<close> key (so that the lookup of \<open>last\<close> raises \<open>KeyError\<close>, written
  \<open>key_error_last\<close>), and a small cache of numbers.
\<close>

definition mock_ticker_data :: "real \<Rightarrow> (string \<times> pyval) list" where
  "mock_ticker_data l =
     [(''symbol'', PStr ''BTC/USDT''), (''last'', PFloat l), (''bid'', PFloat 64999),
      (''ask'', PFloat 65001), (''timestamp'', PInt 1678886400000),
      (''info'', PDict [(''a'', PInt 1), (''b'', PInt 2)])]"

definition mock_ohlcv_data :: "pyval list list" where
  "mock_ohlcv_data =
     [[PInt 1678886400000, PFloat 60000, PFloat 60500, PFloat 59900, PFloat 60400, PFloat 10.5],
      [PInt 1678890000000, PFloat 60400, PFloat 60700, PFloat 60300, PFloat 60650, PFloat 8.2]]"

definition mock_exchange :: env where
  "mock_exchange =
     \<lparr>fetch_ticker = (\<lambda>n symbol. Inr (mock_ticker_data (if n = 0 then 60000 else 70000))),
      fetch_ohlcv = (\<lambda>n symbol timeframe limit. Inr mock_ohlcv_data),
      other_float = (\<lambda>v. None),
      other_int = (\<lambda>v. None),
      validation_error = (\<lambda>model inputs. ''validation error for '' @ model)\<rparr>"

definition mock_response :: "real \<Rightarrow> TickerResponse" where
  "mock_response l =
     \<lparr>ticker_symbol = ''BTC/USDT'', ticker_last = l, ticker_bid = 64999, ticker_ask = 65001,
      ticker_timestamp = 1678886400000, ticker_info = [(''a'', PInt 1), (''b'', PInt 2)]\<rparr>"

definition raising_exchange :: "pyexc \<Rightarrow> env" where
  "raising_exchange e =
     mock_exchange\<lparr>fetch_ticker := (\<lambda>n symbol. Inl e),
                    fetch_ohlcv := (\<lambda>n symbol timeframe limit. Inl e)\<rparr>"

definition demo_cache :: "nat SimpleCache" where
  "demo_cache = cache_set (SimpleCache_init 5) 100 ''a'' 1"

definition partial_exchange :: env where
  "partial_exchange =
     mock_exchange\<lparr>fetch_ticker := (\<lambda>n symbol. Inr [(''symbol'', PStr ''ETH/USDT'')])\<rparr>"

definition key_error_last :: pyexc where
  "key_error_last = PyExc False [CHR 0x27, CHR ''l'', CHR ''a'', CHR ''s'', CHR ''t'', CHR 0x27]"

text \<open>
  The number a Python value stands for, when it is an integer or a float. A timestamp is a
  whole number of 64 bits: an integer, or a float without fractional part, of magnitude
  below \<open>2^63\<close>. A price is a float, or an integer that a double represents exactly (of
  magnitude up to \<open>2^53\<close>). A numeric bar is a list of six numbers, a timestamp followed
  by five prices. \<open>bar_matches bar d\<close> says that the six fields of the record \<open>d\<close> are
  the six numbers of \<open>bar\<close>, in order.
\<close>

fun number :: "pyval \<Rightarrow> real option" where
  "number (PInt i) = Some (real_of_int i)"
| "number (PFloat r) = Some r"
| "number _ = None"

fun is_timestamp :: "pyval \<Rightarrow> bool" where
  "is_timestamp (PInt i) = (\<bar>i\<bar> < 2 ^ 63)"
| "is_timestamp (PFloat r) = (r = real_of_int \<lfloor>r\<rfloor> \<and> \<bar>r\<bar> < 2 ^ 63)"
| "is_timestamp _ = False"

fun is_price :: "pyval \<Rightarrow> bool" where
  "is_price (PFloat r) = True"
| "is_price (PInt i) = (\<bar>i\<bar> \<le> 2 ^ 53)"
| "is_price _ = False"

definition numeric_bar :: "pyval list \<Rightarrow> bool" where
  "numeric_bar bar = (length bar = 6 \<and> is_timestamp (bar ! 0) \<and> list_all is_price (tl bar))"

definition bar_matches :: "pyval list \<Rightarrow> OHLCVData \<Rightarrow> bool" where
  "bar_matches bar d =
     (number (bar ! 0) = Some (real_of_int (bar_timestamp d)) \<and>
      number (bar ! 1) = Some (bar_open d) \<and>
      number (bar ! 2) = Some (bar_high d) \<and>
      number (bar ! 3) = Some (bar_low d) \<and>
      number (bar ! 4) = Some (bar_close d) \<and>
      number (bar ! 5) = Some (bar_volume d))"

section \<open>Properties of the cache\<close>

lemma cache_get_absent: "cache self key = None \<Longrightarrow> cache_get self now key = (None, self)"
  by (simp add: cache_get_def)

lemma cache_get_fresh:
  "cache self key = Some (v, t) \<Longrightarrow> now - t \<le> real_of_int (ttl self) \<Longrightarrow>
   cache_get self now key = (Some v, self)"
  by (simp add: cache_get_def is_expired_def)

lemma cache_get_stale:
  "cache self key = Some (v, t) \<Longrightarrow> now - t > real_of_int (ttl self) \<Longrightarrow>
   cache_get self now key = (None, self\<lparr>cache := (cache self)(key := None)\<rparr>)"
  by (simp add: cache_get_def is_expired_def)

lemma cache_get_ttl: "ttl (snd (cache_get self now key)) = ttl self"
  by (simp add: cache_get_def split: option.split prod.split)

lemma cache_get_entries:
  "cache (snd (cache_get self now key)) k = None \<or>
   cache (snd (cache_get self now key)) k = cache self k"
  by (simp add: cache_get_def split: option.split prod.split)

lemma apply_call_keeps_absent:
  "cache self k = None \<Longrightarrow> \<not> sets_key k call \<Longrightarrow> cache (apply_call self call) k = None"
proof (cases call)
  case (Get key now)
  assume "cache self k = None"
  with cache_get_entries [of self now key k] Get show ?thesis by auto
next
  case (Set key data now)
  assume "cache self k = None" "\<not> sets_key k call"
  with Set show ?thesis by (simp add: cache_set_def)
qed

lemma apply_calls_keeps_absent:
  "cache self k = None \<Longrightarrow> never_set k calls \<Longrightarrow> cache (apply_calls self calls) k = None"
  unfolding apply_calls_def never_set_def
proof (induction calls arbitrary: self)
  case Nil
  then show ?case by simp
next
  case (Cons call calls)
  from Cons.prems(2) have no: "\<not> sets_key k call" and rest: "filter (sets_key k) calls = []"
    by (auto split: if_splits)
  from Cons.prems(1) no have "cache (apply_call self call) k = None"
    by (rule apply_call_keeps_absent)
  with rest Cons.IH show ?case by simp
qed

text \<open>
  Claim C2. \<open>get(key)\<close> returns the stored value when an entry is present and
  \<open>now - insertedAt \<le> ttl\<close>, the boundary \<open>now - insertedAt = ttl\<close> included, and
  leaves the cache as it was; when the entry is present and \<open>now - insertedAt > ttl\<close>
  it deletes that entry and returns absent; when no entry is present it returns absent;
  and a key that no call has set since the cache was constructed has no entry, so
  \<open>get\<close> returns absent for it.
\<close>

theorem cache_get_contract:
  fixes self :: "'v SimpleCache" and calls :: "'v cache_call list"
  shows
  "(cache self key = Some (v, t) \<and> now - t \<le> real_of_int (ttl self)
      \<longrightarrow> cache_get self now key = (Some v, self)) \<and>
   (cache self key = Some (v, t) \<and> now - t = real_of_int (ttl self)
      \<longrightarrow> fst (cache_get self now key) = Some v) \<and>
   (cache self key = Some (v, t) \<and> now - t > real_of_int (ttl self)
      \<longrightarrow> cache_get self now key = (None, self\<lparr>cache := (cache self)(key := None)\<rparr>)) \<and>
   (cache self key = None \<longrightarrow> cache_get self now key = (None, self)) \<and>
   (never_set key calls
      \<longrightarrow> fst (cache_get (apply_calls (SimpleCache_init n) calls) now key) = None)"
proof -
  have "cache (SimpleCache_init n :: 'v SimpleCache) key = None"
    by (simp add: SimpleCache_init_def)
  then have "never_set key calls \<Longrightarrow>
      cache (apply_calls (SimpleCache_init n) calls) key = None"
    by (rule apply_calls_keeps_absent)
  then show ?thesis
    by (auto simp: cache_get_fresh cache_get_stale cache_get_absent)
qed

theorem cache_get_contract_witness:
  "cache demo_cache ''a'' = Some (1, 100) \<and> (101::real) - 100 \<le> real_of_int (ttl demo_cache) \<and>
   cache_get demo_cache 101 ''a'' = (Some 1, demo_cache) \<and>
   (105::real) - 100 = real_of_int (ttl demo_cache) \<and>
   fst (cache_get demo_cache 105 ''a'') = Some 1 \<and>
   (106::real) - 100 > real_of_int (ttl demo_cache) \<and>
   cache_get demo_cache 106 ''a'' = (None, demo_cache\<lparr>cache := (cache demo_cache)(''a'' := None)\<rparr>) \<and>
   cache demo_cache ''b'' = None \<and>
   cache_get demo_cache 101 ''b'' = (None, demo_cache) \<and>
   never_set ''b'' [Set ''a'' (1::nat) 100, Get ''a'' 101, Get ''b'' 102] \<and>
   fst (cache_get (apply_calls (SimpleCache_init 5)
          [Set ''a'' (1::nat) 100, Get ''a'' 101, Get ''b'' 102]) 103 ''b'') = None"
  using cache_get_contract [of demo_cache "''a''" 1 100 101 "[]" 0]
    cache_get_contract [of demo_cache "''a''" 1 100 105 "[]" 0]
    cache_get_contract [of demo_cache "''a''" 1 100 106 "[]" 0]
    cache_get_contract [of demo_cache "''b''" 1 100 101
      "[Set ''a'' (1::nat) 100, Get ''a'' 101, Get ''b'' 102]" 5]
    cache_get_contract [of demo_cache "''b''" 1 100 103
      "[Set ''a'' (1::nat) 100, Get ''a'' 101, Get ''b'' 102]" 5]
  by (simp add: demo_cache_def cache_set_def SimpleCache_init_def never_set_def)

lemma apply_call_ttl: "ttl (apply_call self call) = ttl self"
  by (cases call) (simp_all add: cache_get_ttl cache_set_def)

lemma apply_calls_ttl: "ttl (apply_calls self calls) = ttl self"
  unfolding apply_calls_def
  by (induction calls arbitrary: self) (simp_all add: apply_call_ttl)

text \<open>
  Claim C8. \<open>set(key, value)\<close> always succeeds and stores the value with the current
  clock reading under the key, replacing whatever was there and touching no other key and
  not the TTL; a \<open>get(key)\<close> that follows before the TTL has run out returns the value
  and changes nothing. For the program's cache (TTL 5 seconds), in whatever state earlier
  calls have left it, a \<open>get\<close> at the clock reading of the \<open>set\<close> returns the value.
\<close>

theorem cache_set_then_get:
  fixes self :: "'v SimpleCache"
  shows
  "cache (cache_set self now key v) key = Some (v, now) \<and>
   (k \<noteq> key \<longrightarrow> cache (cache_set self now key v) k = cache self k) \<and>
   ttl (cache_set self now key v) = ttl self \<and>
   (now' - now \<le> real_of_int (ttl self) \<longrightarrow>
      cache_get (cache_set self now key v) now' key = (Some v, cache_set self now key v)) \<and>
   cache_get (cache_set (apply_calls data_cache_init calls) now key r) now key =
     (Some r, cache_set (apply_calls data_cache_init calls) now key r)"
proof -
  have stored: "cache (cache_set self now key v) key = Some (v, now)" for self :: "'a SimpleCache" and v
    by (simp add: cache_set_def)
  have same_ttl: "ttl (cache_set self now key v) = ttl self" for self :: "'a SimpleCache" and v
    by (simp add: cache_set_def)
  have others: "k \<noteq> key \<longrightarrow> cache (cache_set self now key v) k = cache self k"
    by (simp add: cache_set_def)
  have later: "now' - now \<le> real_of_int (ttl self) \<longrightarrow>
      cache_get (cache_set self now key v) now' key = (Some v, cache_set self now key v)"
    using cache_get_fresh [OF stored, of now' self v] by (simp add: same_ttl)
  have "ttl (apply_calls data_cache_init calls) = 5"
    by (simp add: apply_calls_ttl data_cache_init_def SimpleCache_init_def)
  then have at_once: "cache_get (cache_set (apply_calls data_cache_init calls) now key r) now key =
     (Some r, cache_set (apply_calls data_cache_init calls) now key r)"
    using cache_get_fresh [OF stored, of now "apply_calls data_cache_init calls" r]
    by (simp add: same_ttl)
  from stored [of self v] others same_ttl [of self v] later at_once show ?thesis by simp
qed

theorem cache_set_then_get_witness:
  "''b'' \<noteq> ''a'' \<and> cache (cache_set demo_cache 103 ''a'' 2) ''b'' = cache demo_cache ''b'' \<and>
   (104::real) - 103 \<le> real_of_int (ttl demo_cache) \<and>
   cache_get (cache_set demo_cache 103 ''a'' 2) 104 ''a'' = (Some 2, cache_set demo_cache 103 ''a'' 2)"
  using cache_set_then_get [of demo_cache 103 "''a''" 2 "''b''" 104]
  by (simp add: demo_cache_def cache_set_def SimpleCache_init_def)

section \<open>Properties of the ticker handler\<close>

lemma mock_map: "TickerResponse_of E (mock_ticker_data l) = Inr (mock_response l)"
  by (simp add: TickerResponse_of_def mock_ticker_data_def mock_response_def try_bind_def
      dict_item_def TickerResponse_new_def)

lemma cache_get_Some: "cache_get self now key = (Some r, c) \<Longrightarrow> c = self"
  by (auto simp: cache_get_def split: option.splits prod.splits if_splits)

lemma get_ticker_hit:
  "cache_get (data_cache w) t (cache_key s) = (Some r, c) \<Longrightarrow> get_ticker E t t' s w = (Inr r, w)"
  using cache_get_Some [of "data_cache w" t "cache_key s" r c]
  by (simp add: get_ticker_def)

lemma get_ticker_miss_ok:
  "cache_get (data_cache w) t (cache_key s) = (None, c) \<Longrightarrow>
   try_bind (fetch_ticker E (length (ticker_calls w)) (upper s)) (TickerResponse_of E) = Inr r \<Longrightarrow>
   get_ticker E t t' s w =
     (Inr r, w\<lparr>data_cache := cache_set c t' (cache_key s) r,
               ticker_calls := ticker_calls w @ [upper s]\<rparr>)"
  by (simp add: get_ticker_def)

lemma get_ticker_miss_err:
  "cache_get (data_cache w) t (cache_key s) = (None, c) \<Longrightarrow>
   try_bind (fetch_ticker E (length (ticker_calls w)) (upper s)) (TickerResponse_of E) = Inl e \<Longrightarrow>
   get_ticker E t t' s w =
     (Inl (ticker_error s e), w\<lparr>data_cache := c, ticker_calls := ticker_calls w @ [upper s]\<rparr>)"
  by (simp add: get_ticker_def)

text \<open>
  Claim C3. With the 5-second cache, empty at the start: a request at t=100 misses, calls
  the exchange (call count 1) and stores the record; the same symbol at t=101 is answered
  from the cache (count still 1); at t=106 the entry has expired, the exchange is called
  again (count 2) and the new record replaces the old one in the cache; at t=107 the new
  record is answered from the cache (count still 2). Whenever the lookup finds a record,
  the handler returns it and leaves the world, the list of exchange calls included, as it
  was.
\<close>

theorem ticker_cache_scenario:
  assumes first: "try_bind (fetch_ticker E 0 (upper s)) (TickerResponse_of E) = Inr v1"
    and second: "try_bind (fetch_ticker E 1 (upper s)) (TickerResponse_of E) = Inr v2"
  shows "fst (serve_tickers E [(100, s), (101, s), (106, s), (107, s)] world_init) =
           [(Inr v1, 1), (Inr v1, 1), (Inr v2, 2), (Inr v2, 2)] \<and>
         cache (data_cache (snd (serve_tickers E [(100, s), (101, s), (106, s)] world_init)))
           (cache_key s) = Some (v2, 106) \<and>
         (cache_get (data_cache w) t (cache_key s) = (Some r, c) \<longrightarrow>
            get_ticker E t t' s w = (Inr r, w))"
proof -
  have run: "fst (serve_tickers E [(100, s), (101, s), (106, s), (107, s)] world_init) =
      [(Inr v1, 1), (Inr v1, 1), (Inr v2, 2), (Inr v2, 2)]"
    using first second unfolding One_nat_def
    by (simp add: get_ticker_def world_init_def data_cache_init_def SimpleCache_init_def
        cache_get_def cache_set_def is_expired_def)
  have stored: "cache (data_cache (snd (serve_tickers E [(100, s), (101, s), (106, s)] world_init)))
      (cache_key s) = Some (v2, 106)"
    using first second unfolding One_nat_def
    by (simp add: get_ticker_def world_init_def data_cache_init_def SimpleCache_init_def
        cache_get_def cache_set_def is_expired_def)
  from run stored show ?thesis
    by (simp add: get_ticker_hit)
qed

theorem ticker_cache_scenario_witness:
  "try_bind (fetch_ticker mock_exchange 0 (upper ''ETH/USDT'')) (TickerResponse_of mock_exchange)
     = Inr (mock_response 60000) \<and>
   try_bind (fetch_ticker mock_exchange 1 (upper ''ETH/USDT'')) (TickerResponse_of mock_exchange)
     = Inr (mock_response 70000) \<and>
   fst (serve_tickers mock_exchange
         [(100, ''ETH/USDT''), (101, ''ETH/USDT''), (106, ''ETH/USDT''), (107, ''ETH/USDT'')]
         world_init) =
     [(Inr (mock_response 60000), 1), (Inr (mock_response 60000), 1),
      (Inr (mock_response 70000), 2), (Inr (mock_response 70000), 2)] \<and>
   cache_get (cache_set data_cache_init 100 (cache_key ''ETH/USDT'') (mock_response 60000)) 101
       (cache_key ''ETH/USDT'')
     = (Some (mock_response 60000),
        cache_set data_cache_init 100 (cache_key ''ETH/USDT'') (mock_response 60000)) \<and>
   get_ticker mock_exchange 101 101 ''ETH/USDT''
       (world_init\<lparr>data_cache :=
          cache_set data_cache_init 100 (cache_key ''ETH/USDT'') (mock_response 60000)\<rparr>)
     = (Inr (mock_response 60000),
        world_init\<lparr>data_cache :=
          cache_set data_cache_init 100 (cache_key ''ETH/USDT'') (mock_response 60000)\<rparr>)"
proof -
  have f0: "try_bind (fetch_ticker mock_exchange 0 (upper ''ETH/USDT''))
      (TickerResponse_of mock_exchange) = Inr (mock_response 60000)"
    by (simp add: mock_exchange_def try_bind_def mock_map)
  have f1: "try_bind (fetch_ticker mock_exchange 1 (upper ''ETH/USDT''))
      (TickerResponse_of mock_exchange) = Inr (mock_response 70000)"
    by (simp add: mock_exchange_def try_bind_def mock_map)
  have hit: "cache_get (data_cache (world_init\<lparr>data_cache :=
        cache_set data_cache_init 100 (cache_key ''ETH/USDT'') (mock_response 60000)\<rparr>)) 101
      (cache_key ''ETH/USDT'')
    = (Some (mock_response 60000),
       cache_set data_cache_init 100 (cache_key ''ETH/USDT'') (mock_response 60000))"
    by (simp add: cache_get_def cache_set_def is_expired_def data_cache_init_def
        SimpleCache_init_def)
  from ticker_cache_scenario [OF f0 f1,
      of "world_init\<lparr>data_cache :=
            cache_set data_cache_init 100 (cache_key ''ETH/USDT'') (mock_response 60000)\<rparr>"
         101 "mock_response 60000"
         "cache_set data_cache_init 100 (cache_key ''ETH/USDT'') (mock_response 60000)" 101]
    f0 f1 hit
  show ?thesis by simp
qed

lemma cache_key_inj: "(cache_key s1 = cache_key s2) = (s1 = s2)"
  by (simp add: cache_key_def)

text \<open>
  Claim C4 fails as stated: the cache key is built from the symbol as it came in, before and
  apart from the upper-casing, which only the argument of the exchange call receives. The
  two spellings \<open>eth/usdt\<close> and \<open>ETH/USDT\<close> are equal up to case and have different
  keys, and a request for the one, one second after a request for the other has stored its
  record, calls the exchange again. The same holds of \<open>ethusdt\<close> and \<open>ETHUSDT\<close>,
  symbols of one path segment.
\<close>

theorem cache_key_case_counterexample:
  "upper ''eth/usdt'' = upper ''ETH/USDT'' \<and>
   cache_key ''eth/usdt'' \<noteq> cache_key ''ETH/USDT'' \<and>
   fst (serve_tickers mock_exchange [(100, ''ETH/USDT''), (101, ''eth/usdt'')] world_init) =
     [(Inr (mock_response 60000), 1), (Inr (mock_response 70000), 2)] \<and>
   upper ''ethusdt'' = upper ''ETHUSDT'' \<and>
   cache_key ''ethusdt'' \<noteq> cache_key ''ETHUSDT'' \<and>
   fst (serve_tickers mock_exchange [(100, ''ETHUSDT''), (101, ''ethusdt'')] world_init) =
     [(Inr (mock_response 60000), 1), (Inr (mock_response 70000), 2)]"
  by (simp add: cache_key_def upper_def upper_char_def lower_letters_def upper_letters_def
      get_ticker_def world_init_def data_cache_init_def SimpleCache_init_def cache_get_def
      cache_set_def is_expired_def mock_exchange_def try_bind_def mock_map)

text \<open>
  Claim C4, amended. The cache key is \<open>ticker:\<close> followed by the symbol exactly as
  received; it is a deterministic and injective function of that symbol, so two requests
  use the same key exactly when their symbols are the same string. On a miss the exchange
  is called with the upper-cased symbol. A record stored by a request is returned as a
  cache hit, with the world left as it is, to a later request for the same string that
  arrives no more than the TTL after the store.
\<close>

theorem cache_key_raw_symbol:
  "cache_key s = ''ticker:'' @ s \<and>
   (cache_key s1 = cache_key s2) = (s1 = s2) \<and>
   (cache_get (data_cache w) t (cache_key s) = (None, c) \<longrightarrow>
      ticker_calls (snd (get_ticker E t t' s w)) = ticker_calls w @ [upper s]) \<and>
   (cache_get (data_cache w) t (cache_key s) = (None, c) \<and>
    get_ticker E t t' s w = (Inr r, w') \<and> t2 - t' \<le> real_of_int (ttl (data_cache w)) \<longrightarrow>
      get_ticker E' t2 t2' s w' = (Inr r, w'))"
proof -
  have calls: "ticker_calls (snd (get_ticker E t t' s w)) = ticker_calls w @ [upper s]"
    if "cache_get (data_cache w) t (cache_key s) = (None, c)"
    using that by (simp add: get_ticker_def Let_def split: sum.split)
  have again: "get_ticker E' t2 t2' s w' = (Inr r, w')"
    if miss: "cache_get (data_cache w) t (cache_key s) = (None, c)"
      and res: "get_ticker E t t' s w = (Inr r, w')"
      and soon: "t2 - t' \<le> real_of_int (ttl (data_cache w))"
  proof -
    from miss res have w': "data_cache w' = cache_set c t' (cache_key s) r"
      by (auto simp: get_ticker_def Let_def split: sum.splits)
    from miss cache_get_ttl [of "data_cache w" t "cache_key s"]
    have "ttl c = ttl (data_cache w)" by simp
    with soon have "cache_get (cache_set c t' (cache_key s) r) t2 (cache_key s)
        = (Some r, cache_set c t' (cache_key s) r)"
      by (intro cache_get_fresh) (simp_all add: cache_set_def)
    with w' show ?thesis by (simp add: get_ticker_hit)
  qed
  from calls again show ?thesis by (simp add: cache_key_def)
qed

theorem cache_key_raw_symbol_witness:
  "cache_get (data_cache world_init) 100 (cache_key ''eth/usdt'') = (None, data_cache_init) \<and>
   ticker_calls (snd (get_ticker mock_exchange 100 100 ''eth/usdt'' world_init)) = [''ETH/USDT''] \<and>
   get_ticker mock_exchange 100 100 ''eth/usdt'' world_init =
     (Inr (mock_response 60000),
      world_init\<lparr>data_cache := cache_set data_cache_init 100 (cache_key ''eth/usdt'') (mock_response 60000),
                 ticker_calls := [''ETH/USDT'']\<rparr>) \<and>
   (101::real) - 100 \<le> real_of_int (ttl (data_cache world_init)) \<and>
   fst (get_ticker mock_exchange 101 101 ''eth/usdt''
     (world_init\<lparr>data_cache := cache_set data_cache_init 100 (cache_key ''eth/usdt'') (mock_response 60000),
                 ticker_calls := [''ETH/USDT'']\<rparr>)) = Inr (mock_response 60000)"
proof -
  have miss: "cache_get (data_cache world_init) 100 (cache_key ''eth/usdt'') = (None, data_cache_init)"
    by (simp add: world_init_def cache_get_def data_cache_init_def SimpleCache_init_def)
  have up: "upper ''eth/usdt'' = ''ETH/USDT''"
    by (simp add: upper_def upper_char_def lower_letters_def upper_letters_def)
  have res: "get_ticker mock_exchange 100 100 ''eth/usdt'' world_init =
     (Inr (mock_response 60000),
      world_init\<lparr>data_cache := cache_set data_cache_init 100 (cache_key ''eth/usdt'') (mock_response 60000),
                 ticker_calls := [''ETH/USDT'']\<rparr>)"
    using get_ticker_miss_ok [OF miss, of mock_exchange "mock_response 60000" 100]
    by (simp add: up mock_exchange_def try_bind_def mock_map world_init_def)
  have soon: "(101::real) - 100 \<le> real_of_int (ttl (data_cache world_init))"
    by (simp add: world_init_def data_cache_init_def SimpleCache_init_def)
  from cache_key_raw_symbol [of "''eth/usdt''" "''a''" "''a''" world_init 100 data_cache_init
      mock_exchange 100 "mock_response 60000"
      "world_init\<lparr>data_cache :=
          cache_set data_cache_init 100 (cache_key ''eth/usdt'') (mock_response 60000),
        ticker_calls := [''ETH/USDT'']\<rparr>" 101 mock_exchange 101] miss res soon
  have hit: "get_ticker mock_exchange 101 101 ''eth/usdt''
     (world_init\<lparr>data_cache :=
          cache_set data_cache_init 100 (cache_key ''eth/usdt'') (mock_response 60000),
        ticker_calls := [''ETH/USDT'']\<rparr>) =
     (Inr (mock_response 60000),
      world_init\<lparr>data_cache :=
          cache_set data_cache_init 100 (cache_key ''eth/usdt'') (mock_response 60000),
        ticker_calls := [''ETH/USDT'']\<rparr>)"
    by blast
  from miss res soon hit show ?thesis by simp
qed

text \<open>
  Claim C7. When the lookup misses and the exchange call raises, or the call returns and
  the mapping into a \<open>TickerResponse\<close> raises, the handler answers with the error and
  leaves the cache as the lookup left it: nothing is stored. Whenever the handler answers
  with an error the cache is the one the lookup returned, so every entry in it was there
  before the request. And an entry that differs from what the lookup left is the entry of
  this request's key, holding the record that the exchange call and the mapping produced
  and that the handler returned.
\<close>

theorem failed_fetch_stores_nothing:
  "(cache_get (data_cache w) t (cache_key s) = (None, c) \<and>
    fetch_ticker E (length (ticker_calls w)) (upper s) = Inl e \<longrightarrow>
      get_ticker E t t' s w =
        (Inl (ticker_error s e),
         w\<lparr>data_cache := c, ticker_calls := ticker_calls w @ [upper s]\<rparr>)) \<and>
   (cache_get (data_cache w) t (cache_key s) = (None, c) \<and>
    fetch_ticker E (length (ticker_calls w)) (upper s) = Inr raw \<and>
    TickerResponse_of E raw = Inl e \<longrightarrow>
      get_ticker E t t' s w =
        (Inl (ticker_error s e),
         w\<lparr>data_cache := c, ticker_calls := ticker_calls w @ [upper s]\<rparr>)) \<and>
   (fst (get_ticker E t t' s w) = Inl err \<longrightarrow>
      data_cache (snd (get_ticker E t t' s w)) =
        snd (cache_get (data_cache w) t (cache_key s)) \<and>
      (cache (data_cache (snd (get_ticker E t t' s w))) k = None \<or>
       cache (data_cache (snd (get_ticker E t t' s w))) k = cache (data_cache w) k)) \<and>
   (cache (data_cache (snd (get_ticker E t t' s w))) k \<noteq>
      cache (snd (cache_get (data_cache w) t (cache_key s))) k \<longrightarrow>
      k = cache_key s \<and>
      (\<exists>raw r. fetch_ticker E (length (ticker_calls w)) (upper s) = Inr raw \<and>
         TickerResponse_of E raw = Inr r \<and>
         fst (get_ticker E t t' s w) = Inr r \<and>
         cache (data_cache (snd (get_ticker E t t' s w))) k = Some (r, t')))"
proof -
  obtain cached c0 where look: "cache_get (data_cache w) t (cache_key s) = (cached, c0)"
    by (cases "cache_get (data_cache w) t (cache_key s)")
  have fetch_fails: "get_ticker E t t' s w =
        (Inl (ticker_error s e),
         w\<lparr>data_cache := c, ticker_calls := ticker_calls w @ [upper s]\<rparr>)"
    if "cache_get (data_cache w) t (cache_key s) = (None, c)"
      and "fetch_ticker E (length (ticker_calls w)) (upper s) = Inl e"
    using that by (simp add: get_ticker_miss_err try_bind_def)
  have map_fails: "get_ticker E t t' s w =
        (Inl (ticker_error s e),
         w\<lparr>data_cache := c, ticker_calls := ticker_calls w @ [upper s]\<rparr>)"
    if "cache_get (data_cache w) t (cache_key s) = (None, c)"
      and "fetch_ticker E (length (ticker_calls w)) (upper s) = Inr raw"
      and "TickerResponse_of E raw = Inl e"
    using that by (simp add: get_ticker_miss_err try_bind_def)
  have on_error: "data_cache (snd (get_ticker E t t' s w)) =
        snd (cache_get (data_cache w) t (cache_key s)) \<and>
      (cache (data_cache (snd (get_ticker E t t' s w))) k = None \<or>
       cache (data_cache (snd (get_ticker E t t' s w))) k = cache (data_cache w) k)"
    if err: "fst (get_ticker E t t' s w) = Inl err"
  proof -
    from err look have "data_cache (snd (get_ticker E t t' s w)) = c0"
      by (auto simp: get_ticker_def Let_def split: option.splits sum.splits)
    with look cache_get_entries [of "data_cache w" t "cache_key s" k] show ?thesis
      by simp
  qed
  have on_change: "k = cache_key s \<and>
      (\<exists>raw r. fetch_ticker E (length (ticker_calls w)) (upper s) = Inr raw \<and>
         TickerResponse_of E raw = Inr r \<and>
         fst (get_ticker E t t' s w) = Inr r \<and>
         cache (data_cache (snd (get_ticker E t t' s w))) k = Some (r, t'))"
    if "cache (data_cache (snd (get_ticker E t t' s w))) k \<noteq>
      cache (snd (cache_get (data_cache w) t (cache_key s))) k"
    using that look
    by (auto simp: get_ticker_def Let_def try_bind_def cache_set_def
        split: option.splits sum.splits if_splits)
  from fetch_fails map_fails on_error on_change show ?thesis by blast
qed

theorem failed_fetch_stores_nothing_witness:
  "cache_get (data_cache world_init) 100 (cache_key ''ETH/USDT'') = (None, data_cache_init) \<and>
   fetch_ticker (raising_exchange (PyExc True ''rate limit exceeded''))
     (length (ticker_calls world_init)) (upper ''ETH/USDT'') = Inl (PyExc True ''rate limit exceeded'') \<and>
   get_ticker (raising_exchange (PyExc True ''rate limit exceeded'')) 100 100 ''ETH/USDT'' world_init =
     (Inl (HTTPException 500
        ''Exchange error while fetching ticker for ETH/USDT: rate limit exceeded''),
      world_init\<lparr>ticker_calls := [''ETH/USDT'']\<rparr>) \<and>
   fetch_ticker partial_exchange (length (ticker_calls world_init)) (upper ''ETH/USDT'') =
     Inr [(''symbol'', PStr ''ETH/USDT'')] \<and>
   TickerResponse_of partial_exchange [(''symbol'', PStr ''ETH/USDT'')] = Inl key_error_last \<and>
   get_ticker partial_exchange 100 100 ''ETH/USDT'' world_init =
     (Inl (HTTPException 500 (''An unexpected error occurred: '' @ str key_error_last)),
      world_init\<lparr>ticker_calls := [''ETH/USDT'']\<rparr>) \<and>
   data_cache (snd (get_ticker partial_exchange 100 100 ''ETH/USDT'' world_init)) = data_cache_init \<and>
   cache (data_cache (snd (get_ticker mock_exchange 100 100 ''ETH/USDT'' world_init)))
       (cache_key ''ETH/USDT'') \<noteq>
     cache (snd (cache_get (data_cache world_init) 100 (cache_key ''ETH/USDT''))) (cache_key ''ETH/USDT'') \<and>
   fst (get_ticker mock_exchange 100 100 ''ETH/USDT'' world_init) = Inr (mock_response 60000) \<and>
   cache (data_cache (snd (get_ticker mock_exchange 100 100 ''ETH/USDT'' world_init)))
       (cache_key ''ETH/USDT'') = Some (mock_response 60000, 100)"
proof -
  have up: "upper ''ETH/USDT'' = ''ETH/USDT''"
    by (simp add: upper_def upper_char_def lower_letters_def upper_letters_def)
  have miss: "cache_get (data_cache world_init) 100 (cache_key ''ETH/USDT'') = (None, data_cache_init)"
    by (simp add: world_init_def cache_get_def data_cache_init_def SimpleCache_init_def)
  have raised: "fetch_ticker (raising_exchange (PyExc True ''rate limit exceeded''))
     (length (ticker_calls world_init)) (upper ''ETH/USDT'') = Inl (PyExc True ''rate limit exceeded'')"
    by (simp add: raising_exchange_def)
  have partial: "fetch_ticker partial_exchange (length (ticker_calls world_init)) (upper ''ETH/USDT'') =
     Inr [(''symbol'', PStr ''ETH/USDT'')]"
    by (simp add: partial_exchange_def)
  have unmapped: "TickerResponse_of partial_exchange [(''symbol'', PStr ''ETH/USDT'')] = Inl key_error_last"
    by (simp add: TickerResponse_of_def try_bind_def dict_item_def key_error_last_def)
  have ok: "get_ticker mock_exchange 100 100 ''ETH/USDT'' world_init =
     (Inr (mock_response 60000),
      world_init\<lparr>data_cache := cache_set data_cache_init 100 (cache_key ''ETH/USDT'') (mock_response 60000),
                 ticker_calls := [''ETH/USDT'']\<rparr>)"
    using get_ticker_miss_ok [OF miss, of mock_exchange "mock_response 60000" 100]
    by (simp add: up mock_exchange_def try_bind_def mock_map world_init_def)
  have changed: "cache (data_cache (snd (get_ticker mock_exchange 100 100 ''ETH/USDT'' world_init)))
       (cache_key ''ETH/USDT'') \<noteq>
     cache (snd (cache_get (data_cache world_init) 100 (cache_key ''ETH/USDT''))) (cache_key ''ETH/USDT'')"
    by (simp add: ok miss) (simp add: cache_set_def data_cache_init_def SimpleCache_init_def)
  note a = failed_fetch_stores_nothing [of world_init 100 "''ETH/USDT''" data_cache_init
      "raising_exchange (PyExc True ''rate limit exceeded'')" "PyExc True ''rate limit exceeded''"
      100 "[]" "HTTPException 500 []" "[]"]
  note b = failed_fetch_stores_nothing [of world_init 100 "''ETH/USDT''" data_cache_init
      partial_exchange key_error_last 100 "[(''symbol'', PStr ''ETH/USDT'')]"
      "HTTPException 500 (''An unexpected error occurred: '' @ str key_error_last)"
      "cache_key ''ETH/USDT''"]
  note c = failed_fetch_stores_nothing [of world_init 100 "''ETH/USDT''" data_cache_init
      mock_exchange key_error_last 100 "[]" "HTTPException 500 []" "cache_key ''ETH/USDT''"]
  have e1: "ticker_error ''ETH/USDT'' (PyExc True ''rate limit exceeded'') =
      HTTPException 500 ''Exchange error while fetching ticker for ETH/USDT: rate limit exceeded''"
    by (simp add: ticker_error_def)
  have e2: "ticker_error ''ETH/USDT'' key_error_last =
      HTTPException 500 (''An unexpected error occurred: '' @ str key_error_last)"
    by (simp add: ticker_error_def key_error_last_def lower_def lower_char_def lower_letters_def
        upper_letters_def)
  have w0: "world_init\<lparr>data_cache := data_cache_init,
        ticker_calls := ticker_calls world_init @ [upper ''ETH/USDT'']\<rparr> =
      world_init\<lparr>ticker_calls := [''ETH/USDT'']\<rparr>"
    by (simp add: world_init_def up)
  from a miss raised have r1: "get_ticker (raising_exchange (PyExc True ''rate limit exceeded'')) 100 100
      ''ETH/USDT'' world_init =
     (Inl (HTTPException 500
        ''Exchange error while fetching ticker for ETH/USDT: rate limit exceeded''),
      world_init\<lparr>ticker_calls := [''ETH/USDT'']\<rparr>)"
    unfolding e1 w0 by blast
  from b miss partial unmapped have r2: "get_ticker partial_exchange 100 100 ''ETH/USDT'' world_init =
     (Inl (HTTPException 500 (''An unexpected error occurred: '' @ str key_error_last)),
      world_init\<lparr>ticker_calls := [''ETH/USDT'']\<rparr>)"
    unfolding e2 w0 by blast
  from b r2 miss have r3: "data_cache (snd (get_ticker partial_exchange 100 100 ''ETH/USDT'' world_init)) =
      data_cache_init"
    by simp
  from c changed have r4: "fst (get_ticker mock_exchange 100 100 ''ETH/USDT'' world_init) = Inr (mock_response 60000) \<and>
      cache (data_cache (snd (get_ticker mock_exchange 100 100 ''ETH/USDT'' world_init)))
       (cache_key ''ETH/USDT'') = Some (mock_response 60000, 100)"
    by (simp add: ok cache_set_def)
  from miss raised partial unmapped changed r1 r2 r3 r4 show ?thesis
    by blast
qed

text \<open>The three outcomes of the \<open>except\<close> clauses of the ticker handler.\<close>

lemma ticker_error_exchange:
  "is_ExchangeError e \<Longrightarrow>
   ticker_error s e =
     HTTPException 500 (''Exchange error while fetching ticker for '' @ s @ '': '' @ str e)"
  by (simp add: ticker_error_def)

lemma ticker_error_not_found:
  "\<not> is_ExchangeError e \<Longrightarrow>
   contains ''symbol is not supported'' (lower (str e)) \<or> contains ''does not exist'' (lower (str e)) \<Longrightarrow>
   ticker_error s e = HTTPException 404 (''Symbol '' @ s @ '' not found on '' @ EXCHANGE_ID)"
  by (simp add: ticker_error_def)

lemma ticker_error_other:
  "\<not> is_ExchangeError e \<Longrightarrow>
   \<not> contains ''symbol is not supported'' (lower (str e)) \<Longrightarrow>
   \<not> contains ''does not exist'' (lower (str e)) \<Longrightarrow>
   ticker_error s e = HTTPException 500 (''An unexpected error occurred: '' @ str e)"
  by (simp add: ticker_error_def)

text \<open>
  Claim C1, at a symbol in one path segment, \<open>XYZABC\<close>, for which the exchange raises
  \<open>BadSymbol\<close> with the wording of the repository's test
  \<open>test_get_ticker_symbol_not_found\<close>, or with a text saying that the market does not
  exist. As a \<open>ccxt.ExchangeError\<close> (which \<open>BadSymbol\<close> is) the exception is taken by
  the first \<open>except\<close> clause, whatever its text says, and the handler answers with
  status 500, not 404. Were it not an exchange error, the test's wording would still give
  500: lower-cased it contains neither \<open>symbol is not supported\<close> nor
  \<open>does not exist\<close>.
\<close>

theorem get_ticker_bad_symbol:
  "fst (get_ticker (raising_exchange (PyExc True ''The symbol XYZABC is not supported''))
         t t' ''XYZABC'' world_init) =
     Inl (HTTPException 500
       ''Exchange error while fetching ticker for XYZABC: The symbol XYZABC is not supported'') \<and>
   fst (get_ticker (raising_exchange (PyExc True ''Market XYZABC does not exist''))
         t t' ''XYZABC'' world_init) =
     Inl (HTTPException 500
       ''Exchange error while fetching ticker for XYZABC: Market XYZABC does not exist'') \<and>
   fst (get_ticker (raising_exchange (PyExc False ''The symbol XYZABC is not supported''))
         t t' ''XYZABC'' world_init) =
     Inl (HTTPException 500 ''An unexpected error occurred: The symbol XYZABC is not supported'')"
  by (simp add: get_ticker_def world_init_def data_cache_init_def SimpleCache_init_def
      cache_get_def raising_exchange_def try_bind_def ticker_error_def lower_def lower_char_def
      lower_letters_def upper_letters_def)

section \<open>Properties of the OHLCV handler\<close>

lemma timeframes_set: "set timeframes = {''1m'', ''5m'', ''15m'', ''1h'', ''4h'', ''1d''}"
  by (simp add: timeframes_def)

text \<open>
  Claim C5. A request with \<open>limit > 1000\<close> is answered with status 400 and the detail
  \<open>Limit must not exceed 1000 for performance.\<close>; a request with \<open>limit \<le> 1000\<close>
  (given or by default) and a timeframe outside 1m, 5m, 15m, 1h, 4h, 1d is answered with
  status 400 and the detail \<open>Invalid timeframe. Supported: 1m, 5m, 15m, 1h, 4h, 1d.\<close>.
  In both cases the world is unchanged, so the exchange has not been called, and the answer
  does not depend on the exchange: both checks come before any call.
\<close>

theorem ohlcv_validation:
  "set timeframes = {''1m'', ''5m'', ''15m'', ''1h'', ''4h'', ''1d''} \<and>
   (1000 < limit \<longrightarrow>
      get_ohlcv E s tf_arg (Some limit) w =
        (Inl (HTTPException 400 ''Limit must not exceed 1000 for performance.''), w)) \<and>
   (limit \<le> 1000 \<and> tf \<notin> set timeframes \<longrightarrow>
      get_ohlcv E s (Some tf) (Some limit) w =
        (Inl (HTTPException 400 ''Invalid timeframe. Supported: 1m, 5m, 15m, 1h, 4h, 1d.''), w)) \<and>
   (tf \<notin> set timeframes \<longrightarrow>
      get_ohlcv E s (Some tf) None w =
        (Inl (HTTPException 400 ''Invalid timeframe. Supported: 1m, 5m, 15m, 1h, 4h, 1d.''), w))"
  by (simp add: get_ohlcv_def timeframes_set)

theorem ohlcv_validation_witness:
  "(1000::int) < 1001 \<and>
   get_ohlcv mock_exchange ''BTC/USDT'' None (Some 1001) world_init =
     (Inl (HTTPException 400 ''Limit must not exceed 1000 for performance.''), world_init) \<and>
   (100::int) \<le> 1000 \<and> ''20min'' \<notin> set timeframes \<and>
   get_ohlcv mock_exchange ''BTC/USDT'' (Some ''20min'') (Some 100) world_init =
     (Inl (HTTPException 400 ''Invalid timeframe. Supported: 1m, 5m, 15m, 1h, 4h, 1d.''),
      world_init) \<and>
   get_ohlcv mock_exchange ''BTC/USDT'' (Some ''20min'') None world_init =
     (Inl (HTTPException 400 ''Invalid timeframe. Supported: 1m, 5m, 15m, 1h, 4h, 1d.''),
      world_init)"
  using ohlcv_validation [of 1001 mock_exchange "''BTC/USDT''" None world_init "''20min''"]
    ohlcv_validation [of 100 mock_exchange "''BTC/USDT''" None world_init "''20min''"]
  by (simp add: timeframes_def)

lemma ohlcv_error_not_400: "ohlcv_error s e \<noteq> HTTPException 400 d"
  by (simp add: ohlcv_error_def)

lemma get_ohlcv_valid_calls:
  "limit \<le> 1000 \<Longrightarrow> tf \<in> set timeframes \<Longrightarrow>
   snd (get_ohlcv E s (Some tf) (Some limit) w) =
     w\<lparr>ohlcv_calls := ohlcv_calls w @ [(upper s, tf, limit)]\<rparr>"
  by (simp add: get_ohlcv_def Let_def split: sum.split)

text \<open>
  Claim C9. There is no lower bound on \<open>limit\<close>: for every integer \<open>limit \<le> 1000\<close>,
  zero and negative ones included, and a supported timeframe, the request is not rejected
  with status 400 and the exchange is called once more, with the upper-cased symbol, the
  timeframe and that very limit.
\<close>

theorem ohlcv_no_lower_bound:
  "limit \<le> 1000 \<and> tf \<in> set timeframes \<longrightarrow>
     ohlcv_calls (snd (get_ohlcv E s (Some tf) (Some limit) w)) =
       ohlcv_calls w @ [(upper s, tf, limit)] \<and>
     fst (get_ohlcv E s (Some tf) (Some limit) w) \<noteq> Inl (HTTPException 400 d)"
  by (auto simp: get_ohlcv_def Let_def ohlcv_error_not_400 split: sum.split)

theorem ohlcv_no_lower_bound_witness:
  "(0::int) \<le> 1000 \<and> (-5::int) \<le> 1000 \<and> ''1h'' \<in> set timeframes \<and>
   ohlcv_calls (snd (get_ohlcv mock_exchange ''btc/usdt'' (Some ''1h'') (Some 0) world_init)) =
     [(''BTC/USDT'', ''1h'', 0)] \<and>
   ohlcv_calls (snd (get_ohlcv mock_exchange ''btc/usdt'' (Some ''1h'') (Some (-5)) world_init)) =
     [(''BTC/USDT'', ''1h'', -5)]"
  using ohlcv_no_lower_bound [of 0 "''1h''" mock_exchange "''btc/usdt''" world_init "''''"]
    ohlcv_no_lower_bound [of "-5" "''1h''" mock_exchange "''btc/usdt''" world_init "''''"]
  by (simp add: timeframes_def world_init_def upper_def upper_char_def lower_letters_def
      upper_letters_def)

text \<open>
  Claim C10. A request that gives only the symbol behaves as the request with timeframe
  \<open>1h\<close> and limit 100: it passes both checks and the exchange is called with the
  upper-cased symbol, \<open>1h\<close> and 100.
\<close>

theorem ohlcv_defaults:
  "get_ohlcv E s None None w = get_ohlcv E s (Some ''1h'') (Some 100) w \<and>
   ohlcv_calls (snd (get_ohlcv E s None None w)) = ohlcv_calls w @ [(upper s, ''1h'', 100)] \<and>
   fst (get_ohlcv E s None None w) \<noteq> Inl (HTTPException 400 d)"
  by (auto simp: get_ohlcv_def Let_def timeframes_def ohlcv_error_not_400 split: sum.split)

lemma price_as_float: "is_price v \<Longrightarrow> \<exists>r. as_float E v = Some r \<and> number v = Some r"
  by (cases v) simp_all

lemma timestamp_as_int:
  "is_timestamp v \<Longrightarrow> \<exists>n. as_int E v = Some n \<and> number v = Some (real_of_int n)"
  by (cases v) simp_all

lemma OHLCVData_of_numeric:
  assumes "numeric_bar bar"
  shows "\<exists>d. OHLCVData_of E bar = Inr d \<and> bar_matches bar d"
proof -
  from assms obtain t o' h l c v where bar: "bar = [t, o', h, l, c, v]"
    by (auto simp: numeric_bar_def length_Suc_conv eval_nat_numeral)
  from assms bar have prices: "is_price o'" "is_price h" "is_price l" "is_price c" "is_price v"
    by (simp_all add: numeric_bar_def)
  from prices(1) obtain ro where ro: "as_float E o' = Some ro" "number o' = Some ro"
    using price_as_float [of o' E] by auto
  from prices(2) obtain rh where rh: "as_float E h = Some rh" "number h = Some rh"
    using price_as_float [of h E] by auto
  from prices(3) obtain rl where rl: "as_float E l = Some rl" "number l = Some rl"
    using price_as_float [of l E] by auto
  from prices(4) obtain rc where rc: "as_float E c = Some rc" "number c = Some rc"
    using price_as_float [of c E] by auto
  from prices(5) obtain rv where rv: "as_float E v = Some rv" "number v = Some rv"
    using price_as_float [of v E] by auto
  from assms bar obtain n where n: "as_int E t = Some n" "number t = Some (real_of_int n)"
    using timestamp_as_int [of t E] by (auto simp: numeric_bar_def)
  let ?d = "\<lparr>bar_timestamp = n, bar_open = ro, bar_high = rh, bar_low = rl,
             bar_close = rc, bar_volume = rv\<rparr>"
  have "OHLCVData_of E bar = Inr ?d"
    using n(1) ro(1) rh(1) rl(1) rc(1) rv(1)
    by (simp add: bar OHLCVData_of_def list_item_def try_bind_def OHLCVData_new_def)
  moreover have "bar_matches bar ?d"
    using n(2) ro(2) rh(2) rl(2) rc(2) rv(2) by (simp add: bar bar_matches_def)
  ultimately show ?thesis by blast
qed

lemma format_bars_numeric:
  "list_all numeric_bar bars \<Longrightarrow>
   \<exists>ds. format_bars E bars = Inr ds \<and> list_all2 bar_matches bars ds"
proof (induction bars)
  case Nil
  then show ?case by simp
next
  case (Cons bar bars)
  then obtain ds where ds: "format_bars E bars = Inr ds" "list_all2 bar_matches bars ds"
    by auto
  from Cons.prems obtain d where d: "OHLCVData_of E bar = Inr d" "bar_matches bar d"
    using OHLCVData_of_numeric [of bar E] by auto
  from ds d show ?case by (simp add: try_bind_def)
qed

text \<open>
  Claim C6. For a request that passes both checks and an exchange call that returns
  \<open>n\<close> numeric bars (six numbers each, which the fields of a bar record hold exactly: a
  whole timestamp of 64 bits and five prices that are floats or integers up to \<open>2^53\<close>):
  the exchange is called exactly once (one entry is added to the list
  of calls), the cache is neither read (the answer is the same whatever the cache holds)
  nor written (the rest of the world is unchanged), and the answer carries the upper-cased
  symbol, the timeframe as given and \<open>n\<close> records in the order of the bars, the
  timestamp, open, high, low, close and volume of the i-th record being the first to sixth
  number of the i-th bar.
\<close>

theorem ohlcv_success:
  assumes "limit \<le> 1000" and "tf \<in> set timeframes"
    and "fetch_ohlcv E (length (ohlcv_calls w)) (upper s) tf limit = Inr bars"
    and "list_all numeric_bar bars"
  shows "snd (get_ohlcv E s (Some tf) (Some limit) w) =
           w\<lparr>ohlcv_calls := ohlcv_calls w @ [(upper s, tf, limit)]\<rparr> \<and>
         fst (get_ohlcv E s (Some tf) (Some limit) (w\<lparr>data_cache := c\<rparr>)) =
           fst (get_ohlcv E s (Some tf) (Some limit) w) \<and>
         (\<exists>ds. fst (get_ohlcv E s (Some tf) (Some limit) w) =
                  Inr \<lparr>ohlcv_symbol = upper s, ohlcv_timeframe = tf, ohlcv_data = ds\<rparr> \<and>
               length ds = length bars \<and>
               (\<forall>i<length bars.
                  number (bars ! i ! 0) = Some (real_of_int (bar_timestamp (ds ! i))) \<and>
                  number (bars ! i ! 1) = Some (bar_open (ds ! i)) \<and>
                  number (bars ! i ! 2) = Some (bar_high (ds ! i)) \<and>
                  number (bars ! i ! 3) = Some (bar_low (ds ! i)) \<and>
                  number (bars ! i ! 4) = Some (bar_close (ds ! i)) \<and>
                  number (bars ! i ! 5) = Some (bar_volume (ds ! i))))"
proof -
  from assms(4) obtain ds where ds: "format_bars E bars = Inr ds" "list_all2 bar_matches bars ds"
    using format_bars_numeric [of bars E] by auto
  from assms(1,2,3) ds(1)
  have res: "get_ohlcv E s (Some tf) (Some limit) w =
      (Inr \<lparr>ohlcv_symbol = upper s, ohlcv_timeframe = tf, ohlcv_data = ds\<rparr>,
       w\<lparr>ohlcv_calls := ohlcv_calls w @ [(upper s, tf, limit)]\<rparr>)"
    by (simp add: get_ohlcv_def try_bind_def)
  have indep: "fst (get_ohlcv E s (Some tf) (Some limit) (w\<lparr>data_cache := c\<rparr>)) =
      fst (get_ohlcv E s (Some tf) (Some limit) w)"
    by (simp add: get_ohlcv_def Let_def split: sum.split)
  from ds(2) have len: "length ds = length bars"
    by (simp add: list_all2_lengthD)
  from ds(2) have "\<forall>i<length bars. bar_matches (bars ! i) (ds ! i)"
    by (simp add: list_all2_conv_all_nth)
  with res indep len show ?thesis
    by (simp add: bar_matches_def)
qed

theorem ohlcv_success_witness:
  "(2::int) \<le> 1000 \<and> ''1h'' \<in> set timeframes \<and>
   fetch_ohlcv mock_exchange (length (ohlcv_calls world_init)) (upper ''btc/usdt'') ''1h'' 2 =
     Inr mock_ohlcv_data \<and>
   list_all numeric_bar mock_ohlcv_data \<and>
   snd (get_ohlcv mock_exchange ''btc/usdt'' (Some ''1h'') (Some 2) world_init) =
     world_init\<lparr>ohlcv_calls := [(''BTC/USDT'', ''1h'', 2)]\<rparr> \<and>
   fst (get_ohlcv mock_exchange ''btc/usdt'' (Some ''1h'') (Some 2) world_init) =
     Inr \<lparr>ohlcv_symbol = ''BTC/USDT'', ohlcv_timeframe = ''1h'',
          ohlcv_data =
            [\<lparr>bar_timestamp = 1678886400000, bar_open = 60000, bar_high = 60500,
              bar_low = 59900, bar_close = 60400, bar_volume = 10.5\<rparr>,
             \<lparr>bar_timestamp = 1678890000000, bar_open = 60400, bar_high = 60700,
              bar_low = 60300, bar_close = 60650, bar_volume = 8.2\<rparr>]\<rparr>"
proof -
  have up: "upper ''btc/usdt'' = ''BTC/USDT''"
    by (simp add: upper_def upper_char_def lower_letters_def upper_letters_def)
  have h1: "(2::int) \<le> 1000" by simp
  have h2: "''1h'' \<in> set timeframes" by (simp add: timeframes_def)
  have h3: "fetch_ohlcv mock_exchange (length (ohlcv_calls world_init)) (upper ''btc/usdt'') ''1h'' 2
      = Inr mock_ohlcv_data"
    by (simp add: mock_exchange_def)
  have h4: "list_all numeric_bar mock_ohlcv_data"
    by (simp add: mock_ohlcv_data_def numeric_bar_def)
  have calls: "ohlcv_calls world_init = []" by (simp add: world_init_def)
  have bars: "format_bars mock_exchange mock_ohlcv_data =
      Inr [\<lparr>bar_timestamp = 1678886400000, bar_open = 60000, bar_high = 60500,
              bar_low = 59900, bar_close = 60400, bar_volume = 10.5\<rparr>,
             \<lparr>bar_timestamp = 1678890000000, bar_open = 60400, bar_high = 60700,
              bar_low = 60300, bar_close = 60650, bar_volume = 8.2\<rparr>]"
    by (simp add: mock_ohlcv_data_def OHLCVData_of_def list_item_def try_bind_def
        OHLCVData_new_def)
  have resp: "fst (get_ohlcv mock_exchange ''btc/usdt'' (Some ''1h'') (Some 2) world_init) =
     Inr \<lparr>ohlcv_symbol = ''BTC/USDT'', ohlcv_timeframe = ''1h'',
          ohlcv_data =
            [\<lparr>bar_timestamp = 1678886400000, bar_open = 60000, bar_high = 60500,
              bar_low = 59900, bar_close = 60400, bar_volume = 10.5\<rparr>,
             \<lparr>bar_timestamp = 1678890000000, bar_open = 60400, bar_high = 60700,
              bar_low = 60300, bar_close = 60650, bar_volume = 8.2\<rparr>]\<rparr>"
    using h2 h3 bars by (simp add: get_ohlcv_def try_bind_def up Let_def)
  from ohlcv_success [OF h1 h2 h3 h4, of "data_cache world_init"] h1 h2 h3 h4 resp
  show ?thesis by (simp add: up calls)
qed

end
